theory Spec2Isabelle
  imports Complex_Main "HOL-Library.Log_Nat"
begin

section \<open>Data model\<close>

text \<open>
  The sources are one file, \<open>accessHistory.controller.ts\<close>, which holds the access
  history controller (lines 7 to 139) and the administration controller (lines 146 to
  448); line numbers are those of this file.

  A \<open>Date\<close> is its time value, the milliseconds since the epoch, an \<open>int\<close>;
  a nullable column is an \<open>option\<close>. Counts and identifiers are integers. A
  JavaScript number that holds hours is the rational that the binary64 value denotes,
  and every operation on hours rounds its exact result to binary64.
\<close>

text \<open>
  Modelled from the spec: the entity declarations (\<open>access\<close>, \<open>accessHistory\<close>,
  \<open>room\<close>, \<open>person\<close>, \<open>administration\<close>) are imported by the controllers but are not
  part of the sources. The records below have the fields the controllers read, an event
  comes with its person and its room attached (the \<open>relations\<close> of each query), and
  the state of an event is the enumeration active, completed, cancelled.
\<close>

datatype access_state = Active | Completed | Cancelled

record person =
  person_id :: int
  name :: string
  surnames :: string

record room =
  room_id :: int
  room_name :: string

record access =
  access_id :: int
  person :: person
  room :: room
  entry_datetime :: int
  exit_datetime :: "int option"
  state :: access_state

section \<open>Numbers\<close>

text \<open>
  The binary64 value nearest to a rational, the one with the even significand on a tie:
  \<open>floor_log2\<close> is the exponent of the leading bit, the significand has 53 bits. The
  exponent is not bounded: the hours of an event that come from \<open>Date\<close> values are
  zero or between \<open>2^-22\<close> and \<open>2^33\<close> in size, and their sums and quotients
  stay far from the overflow and from the subnormal numbers of binary64.
\<close>

definition floor_log2 :: "rat \<Rightarrow> int" where
  "floor_log2 x = (if x \<ge> 1 then bitlen \<lfloor>x\<rfloor> - 1 else - bitlen (\<lceil>1 / x\<rceil> - 1))"

definition round_half_even :: "rat \<Rightarrow> int" where
  "round_half_even m =
     (let f = \<lfloor>m\<rfloor>; r = m - of_int f
      in if r < 1 / 2 then f else if r > 1 / 2 then f + 1 else if even f then f else f + 1)"

definition binary64 :: "rat \<Rightarrow> rat" where
  "binary64 x =
     (if x = 0 then 0
      else (let e = floor_log2 \<bar>x\<bar> - 52;
                k = round_half_even (\<bar>x\<bar> / 2 powi e)
            in sgn x * of_int k * 2 powi e))"

text \<open>
  The decimal that \<open>x.toFixed(2)\<close> prints: the sign is split off, a magnitude of at
  least \<open>10^21\<close> is printed in full, and otherwise the integer \<open>n\<close> with \<open>n / 100\<close>
  nearest to the exact value of the magnitude is taken, the larger one on a tie.
  \<open>parseFloat\<close> reads a decimal as the binary64 value nearest to it.
\<close>

definition toFixed2 :: "rat \<Rightarrow> rat" where
  "toFixed2 x =
     (let m = (if x < 0 then - x else x);
          r = (if m \<ge> 10 ^ 21 then m else of_int \<lfloor>m * 100 + 1 / 2\<rfloor> / 100)
      in if x < 0 then - r else r)"

definition parseFloat :: "rat \<Rightarrow> rat" where
  "parseFloat decimal = binary64 decimal"

section \<open>Room usage aggregation (getRoomUsageStats, lines 271 to 300)\<close>

text \<open>
  The \<open>forEach\<close> of lines 281 to 287 over the completed accesses; the pair is
  \<open>(totalHours, totalDuration)\<close>. A \<open>Date\<close> object is truthy, so the guard of
  line 282 passes exactly on a non-null exit. The difference of the two time values,
  its quotient by 3600000 and each sum are binary64 operations.
\<close>

fun sumDurations :: "access list \<Rightarrow> rat \<times> rat \<Rightarrow> rat \<times> rat" where
  "sumDurations [] acc = acc"
| "sumDurations (a # as) (totalHours, totalDuration) =
     (case exit_datetime a of
        Some e \<Rightarrow>
          (let duration =
                 binary64 (binary64 (of_int e - of_int (entry_datetime a)) / (1000 * 60 * 60))
           in sumDurations as
                (binary64 (totalHours + duration), binary64 (totalDuration + duration)))
      | None \<Rightarrow> sumDurations as (totalHours, totalDuration))"

record room_stat =
  stat_room_id :: int
  stat_room_name :: string
  stat_total_accesses :: int
  completed_accesses :: nat
  cancelled_accesses :: nat
  total_hours_used :: rat
  average_duration :: rat

definition roomStat :: "access list \<Rightarrow> room \<Rightarrow> room_stat" where
  "roomStat accesses r =
     (let roomAccesses = filter (\<lambda>a. room_id (room a) = room_id r) accesses;
          completedAccesses = filter (\<lambda>a. exit_datetime a \<noteq> None) roomAccesses;
          cancelledAccesses = filter (\<lambda>a. state a = Cancelled) roomAccesses;
          totalAccesses = int (length roomAccesses) - int (length cancelledAccesses);
          totals = sumDurations completedAccesses (0, 0);
          totalHours = fst totals;
          totalDuration = snd totals;
          averageDuration =
            (if length completedAccesses > 0
             then binary64 (totalDuration / of_nat (length completedAccesses)) else 0)
      in \<lparr> stat_room_id = room_id r,
           stat_room_name = room_name r,
           stat_total_accesses = totalAccesses,
           completed_accesses = length completedAccesses,
           cancelled_accesses = length cancelledAccesses,
           total_hours_used = parseFloat (toFixed2 totalHours),
           average_duration = parseFloat (toFixed2 averageDuration) \<rparr>)"

section \<open>Requests, responses, the store and its failures\<close>

text \<open>
  A query parameter of Express is absent (\<open>None\<close>), a string, or an array or object;
  the latter carries the string that \<open>new Date\<close> converts it to.
\<close>

datatype qparam = QString string | QObject string

record request =
  start_date :: "qparam option"
  end_date :: "qparam option"
  room_id_param :: string

text \<open>
  The built-ins of the runtime that the handlers call are parameters: \<open>Date_parse\<close>
  is the time value that \<open>new Date(s)\<close> gets for the string \<open>s\<close> (\<open>None\<close> for an
  Invalid Date), \<open>parseInt\<close> has \<open>None\<close> for \<open>NaN\<close>, \<open>setHours_end\<close> is
  \<open>setHours(23, 59, 59, 999)\<close> on a valid date in the local time zone, and
  \<open>toLocaleDateString\<close> prints a date in the locale of the server.
\<close>

record runtime =
  Date_parse :: "string \<Rightarrow> int option"
  parseInt :: "string \<Rightarrow> int option"
  setHours_end :: "int \<Rightarrow> int"
  toLocaleDateString :: "int \<Rightarrow> string"

definition falsy :: "qparam option \<Rightarrow> bool" where
  "falsy q = (case q of None \<Rightarrow> True | Some (QString s) \<Rightarrow> s = [] | Some (QObject s) \<Rightarrow> False)"

definition is_string :: "qparam option \<Rightarrow> bool" where
  "is_string q = (case q of Some (QString s) \<Rightarrow> True | _ \<Rightarrow> False)"

definition newDate :: "runtime \<Rightarrow> qparam option \<Rightarrow> int option" where
  "newDate rt q =
     (case q of None \<Rightarrow> None | Some (QString s) \<Rightarrow> Date_parse rt s | Some (QObject s) \<Rightarrow> Date_parse rt s)"

text \<open>
  What a store call throws: an \<open>Error\<close> object with its message and its own
  enumerable properties, or a value that is not an \<open>Error\<close>, with its string.
  Lines 58 and 136 send \<open>error.message\<close>, or \<open>String(error)\<close>; lines 244, 328 and
  445 hand the thrown value itself to \<open>res.json\<close>, whose \<open>JSON.stringify\<close> writes the
  enumerable properties of an object, and the message of an \<open>Error\<close> is not one of them.
\<close>

datatype thrown = Error_object string "(string \<times> string) list" | Thrown_string string

datatype error_field = Error_text string | Error_properties "(string \<times> string) list"

fun error_message :: "thrown \<Rightarrow> error_field" where
  "error_message (Error_object msg props) = Error_text msg"
| "error_message (Thrown_string s) = Error_text s"

fun error_json :: "thrown \<Rightarrow> error_field" where
  "error_json (Error_object msg props) = Error_properties props"
| "error_json (Thrown_string s) = Error_text s"

record formatted_history =
  history_id :: int
  person_name :: string
  history_room_name :: string
  history_entry_datetime :: int
  history_exit_datetime :: "int option"

record user_entry =
  entry_name :: string
  entry_accessCount :: nat

record access_entry =
  access_person :: string
  access_room :: string
  entry_time :: int
  exit_time :: "int option"

record absence_entry =
  absence_person :: string
  absence_room :: string
  scheduled_entry_time :: int

record detailed_report =
  report_start_date :: int
  report_end_date :: int
  total_accesses :: nat
  total_absences :: nat
  report_accesses :: "access_entry list"
  report_absences :: "absence_entry list"
  frequent_users :: "user_entry list"
  infrequent_users :: "user_entry list"

record usage_response =
  period :: string
  days_in_period :: nat
  usage_total_accesses :: int
  total_cancellations :: nat
  usage_total_hours_used :: rat
  room_stats :: "room_stat list"

datatype payload =
    Histories "formatted_history list"
  | Room_histories int string "formatted_history list"
  | Report detailed_report
  | Usage usage_response

record response =
  status :: nat
  success :: bool
  message :: string
  error :: "error_field option"
  data :: "payload option"

text \<open>
  A row of the \<open>administration\<close> table, without its generated id; the two text
  columns hold the JSON of the lists kept here.
\<close>

record administration =
  report_date :: int
  adm_total_accesses :: nat
  adm_total_absences :: nat
  adm_frequent_users :: "user_entry list"
  adm_infrequent_users :: "user_entry list"

record database =
  access_histories :: "access list"
  accesses :: "access list"
  rooms :: "room list"
  administrations :: "administration list"

text \<open>
  The store calls of a request are numbered from 0 in the order they are made;
  \<open>faults k = Some t\<close> says that call \<open>k\<close> throws \<open>t\<close>. A handler returns its
  response, the store calls it made, and the database it leaves. A \<open>save\<close> that
  throws writes no row.
\<close>

datatype store_op =
  AccessHistory_find | Room_findOne | Room_find | Access_find | Access_query | Administration_save

record outcome =
  response :: response
  calls :: "store_op list"
  db_after :: database

definition reply :: "nat \<Rightarrow> bool \<Rightarrow> string \<Rightarrow> error_field option \<Rightarrow> payload option
    \<Rightarrow> store_op list \<Rightarrow> database \<Rightarrow> outcome" where
  "reply st ok msg err dat made db =
     \<lparr> response = \<lparr> status = st, success = ok, message = msg, error = err, data = dat \<rparr>,
       calls = made, db_after = db \<rparr>"

section \<open>The access history controller (lines 7 to 139)\<close>

definition between :: "int \<Rightarrow> int \<Rightarrow> access \<Rightarrow> bool" where
  "between lo hi a = (lo \<le> entry_datetime a \<and> entry_datetime a \<le> hi)"

definition order_desc :: "access list \<Rightarrow> access list" where
  "order_desc xs = sort_key (\<lambda>a. - entry_datetime a) xs"

definition format_history :: "access \<Rightarrow> formatted_history" where
  "format_history history =
     \<lparr> history_id = access_id history,
       person_name = name (person history) @ '' '' @ surnames (person history),
       history_room_name = room_name (room history),
       history_entry_datetime = entry_datetime history,
       history_exit_datetime = exit_datetime history \<rparr>"

definition getAccessHistories :: "runtime \<Rightarrow> (nat \<Rightarrow> thrown option) \<Rightarrow> database \<Rightarrow> request \<Rightarrow> outcome" where
  "getAccessHistories rt faults db req =
     (if falsy (start_date req) \<or> falsy (end_date req)
         \<or> \<not> is_string (start_date req) \<or> \<not> is_string (end_date req)
      then reply 400 False ''Start date and end date are required'' None None [] db
      else
        (case (newDate rt (start_date req), newDate rt (end_date req)) of
           (Some startDate, Some endDate0) \<Rightarrow>
             (let endDate = setHours_end rt endDate0 in
              case faults 0 of
                Some t \<Rightarrow>
                  reply 500 False ''An error occurred while fetching access histories''
                    (Some (error_message t)) None [AccessHistory_find] db
              | None \<Rightarrow>
                  (let histories =
                         order_desc (filter (between startDate endDate) (access_histories db));
                       formattedHistories = map format_history histories
                   in reply 200 True ''Access histories retrieved successfully'' None
                        (Some (Histories formattedHistories)) [AccessHistory_find] db))
         | _ \<Rightarrow> reply 400 False ''Invalid date format. Use YYYY-MM-DD'' None None [] db))"

definition getRoomAccessHistories :: "runtime \<Rightarrow> (nat \<Rightarrow> thrown option) \<Rightarrow> database \<Rightarrow> request \<Rightarrow> outcome" where
  "getRoomAccessHistories rt faults db req =
     (case parseInt rt (room_id_param req) of
        None \<Rightarrow> reply 400 False ''Invalid room ID'' None None [] db
      | Some rid \<Rightarrow>
        if falsy (start_date req) \<or> falsy (end_date req)
           \<or> \<not> is_string (start_date req) \<or> \<not> is_string (end_date req)
        then reply 400 False ''Start date and end date are required'' None None [] db
        else
          (case (newDate rt (start_date req), newDate rt (end_date req)) of
             (Some startDate, Some endDate0) \<Rightarrow>
               (let endDate = setHours_end rt endDate0 in
                case faults 0 of
                  Some t \<Rightarrow>
                    reply 500 False ''Error getting room access histories''
                      (Some (error_message t)) None [Room_findOne] db
                | None \<Rightarrow>
                    (case find (\<lambda>r. room_id r = rid) (rooms db) of
                       None \<Rightarrow> reply 404 False ''Room not found'' None None [Room_findOne] db
                     | Some roomExists \<Rightarrow>
                         (case faults 1 of
                            Some t \<Rightarrow>
                              reply 500 False ''Error getting room access histories''
                                (Some (error_message t)) None
                                [Room_findOne, AccessHistory_find] db
                          | None \<Rightarrow>
                              (let histories =
                                     order_desc
                                       (filter (\<lambda>a. room_id (room a) = rid
                                                  \<and> between startDate endDate a)
                                          (access_histories db));
                                   formattedHistories = map format_history histories
                               in reply 200 True ''Room access histories retrieved successfully''
                                    None
                                    (Some (Room_histories rid (room_name roomExists)
                                             formattedHistories))
                                    [Room_findOne, AccessHistory_find] db))))
           | _ \<Rightarrow> reply 400 False ''Invalid date format. Use YYYY-MM-DD'' None None [] db))"

section \<open>The administration controller (lines 146 to 448)\<close>

text \<open>
  The dates that lines 148 to 151 (in the time of Madrid) and lines 252 to 254 and 268
  (in local time) compute from the system clock.
\<close>

record clock =
  clock_now :: int
  startOfMonth :: int
  endOfToday :: int
  dayOfMonth :: nat

text \<open>
  The two \<open>find\<close> calls of the report handlers (lines 154 to 160 and 165 to 171,
  again at 355 to 361 and 366 to 372); \<open>Between\<close> includes both ends.
\<close>

definition find_completed :: "int \<Rightarrow> int \<Rightarrow> access list \<Rightarrow> access list" where
  "find_completed start stop table =
     filter (\<lambda>a. between start stop a \<and> exit_datetime a \<noteq> None) table"

definition find_cancelled :: "int \<Rightarrow> int \<Rightarrow> access list \<Rightarrow> access list" where
  "find_cancelled start stop table =
     filter (\<lambda>a. between start stop a \<and> state a = Cancelled) table"

text \<open>
  The grouped query of lines 176 to 188 (and 377 to 389) on the rows joined with their
  person: one row for each group of \<open>person_id\<close>, \<open>name\<close> and \<open>surnames\<close> with its
  \<open>COUNT(*)\<close>, ordered by the count, largest first. The count is kept as the number
  that \<open>parseInt\<close> reads from the column.
\<close>

record user_row =
  userId :: int
  accessCount :: nat
  user_name :: string
  user_surnames :: string

definition activeUsersQuery :: "int \<Rightarrow> int \<Rightarrow> access list \<Rightarrow> user_row list" where
  "activeUsersQuery start stop table =
     (let joined = filter (\<lambda>a. between start stop a \<and> exit_datetime a \<noteq> None) table;
          groups = remdups (map person joined);
          counted =
            map (\<lambda>p. \<lparr> userId = person_id p,
                        accessCount = length (filter (\<lambda>a. person a = p) joined),
                        user_name = name p,
                        user_surnames = surnames p \<rparr>) groups
      in sort_key (\<lambda>u. - int (accessCount u)) counted)"

definition frequentUsers :: "user_row list \<Rightarrow> user_row list" where
  "frequentUsers allActiveUsers = filter (\<lambda>user. accessCount user > 3) allActiveUsers"

definition infrequentUsers :: "user_row list \<Rightarrow> user_row list" where
  "infrequentUsers allActiveUsers = filter (\<lambda>user. accessCount user \<le> 3) allActiveUsers"

definition user_entry_of :: "user_row \<Rightarrow> user_entry" where
  "user_entry_of u =
     \<lparr> entry_name = user_name u @ '' '' @ user_surnames u, entry_accessCount = accessCount u \<rparr>"

definition detailedReport ::
    "int \<Rightarrow> int \<Rightarrow> access list \<Rightarrow> access list \<Rightarrow> user_row list \<Rightarrow> detailed_report" where
  "detailedReport start stop found absences allActiveUsers =
     \<lparr> report_start_date = start,
       report_end_date = stop,
       total_accesses = length found,
       total_absences = length absences,
       report_accesses =
         map (\<lambda>a. \<lparr> access_person = name (person a) @ '' '' @ surnames (person a),
                     access_room = room_name (room a),
                     entry_time = entry_datetime a,
                     exit_time = exit_datetime a \<rparr>) found,
       report_absences =
         map (\<lambda>a. \<lparr> absence_person = name (person a) @ '' '' @ surnames (person a),
                     absence_room = room_name (room a),
                     scheduled_entry_time = entry_datetime a \<rparr>) absences,
       frequent_users = map user_entry_of (frequentUsers allActiveUsers),
       infrequent_users = map user_entry_of (infrequentUsers allActiveUsers) \<rparr>"

definition newReport :: "int \<Rightarrow> detailed_report \<Rightarrow> administration" where
  "newReport date report =
     \<lparr> report_date = date,
       adm_total_accesses = total_accesses report,
       adm_total_absences = total_absences report,
       adm_frequent_users = frequent_users report,
       adm_infrequent_users = infrequent_users report \<rparr>"

text \<open>
  Lines 154 to 246 and lines 355 to 447 are the same text up to the names of the date
  variables, the date stored in the snapshot and the two messages, which are the
  parameters here: three queries, the report, one \<open>save\<close>, the response 201, and the
  \<open>catch\<close> that answers 500 with the thrown value.
\<close>

definition report_request ::
    "(nat \<Rightarrow> thrown option) \<Rightarrow> database \<Rightarrow> int \<Rightarrow> int \<Rightarrow> int \<Rightarrow> string \<Rightarrow> string \<Rightarrow> outcome" where
  "report_request faults db start stop date saved_message failed_message =
     (case faults 0 of
        Some t \<Rightarrow> reply 500 False failed_message (Some (error_json t)) None [Access_find] db
      | None \<Rightarrow>
        (let found = find_completed start stop (accesses db) in
         case faults 1 of
           Some t \<Rightarrow>
             reply 500 False failed_message (Some (error_json t)) None
               [Access_find, Access_find] db
         | None \<Rightarrow>
           (let absences = find_cancelled start stop (accesses db) in
            case faults 2 of
              Some t \<Rightarrow>
                reply 500 False failed_message (Some (error_json t)) None
                  [Access_find, Access_find, Access_query] db
            | None \<Rightarrow>
              (let allActiveUsers = activeUsersQuery start stop (accesses db);
                   report = detailedReport start stop found absences allActiveUsers
               in case faults 3 of
                    Some t \<Rightarrow>
                      reply 500 False failed_message (Some (error_json t)) None
                        [Access_find, Access_find, Access_query, Administration_save] db
                  | None \<Rightarrow>
                      reply 201 True saved_message None (Some (Report report))
                        [Access_find, Access_find, Access_query, Administration_save]
                        (db \<lparr> administrations :=
                                 administrations db @ [newReport date report] \<rparr>)))))"

definition generateDailyReport :: "clock \<Rightarrow> (nat \<Rightarrow> thrown option) \<Rightarrow> database \<Rightarrow> outcome" where
  "generateDailyReport clk faults db =
     report_request faults db (startOfMonth clk) (endOfToday clk) (clock_now clk)
       ''Daily report generated and saved successfully'' ''Error generating daily report''"

definition getDateReport :: "runtime \<Rightarrow> (nat \<Rightarrow> thrown option) \<Rightarrow> database \<Rightarrow> request \<Rightarrow> outcome" where
  "getDateReport rt faults db req =
     (if falsy (start_date req) \<or> falsy (end_date req)
      then reply 400 False ''Start date and end date are required'' None None [] db
      else
        (case (newDate rt (start_date req),
               map_option (setHours_end rt) (newDate rt (end_date req))) of
           (Some startDate, Some endDate) \<Rightarrow>
             report_request faults db startDate endDate startDate
               ''Custom report generated and saved successfully''
               ''Error generating custom report''
         | _ \<Rightarrow> reply 400 False ''Invalid date format. Use YYYY-MM-DD'' None None [] db))"

definition getRoomUsageStats :: "clock \<Rightarrow> runtime \<Rightarrow> (nat \<Rightarrow> thrown option) \<Rightarrow> database \<Rightarrow> outcome" where
  "getRoomUsageStats clk rt faults db =
     (let startDate = startOfMonth clk; endDate = endOfToday clk in
      case faults 0 of
        Some t \<Rightarrow>
          reply 500 False ''Error retrieving room usage statistics'' (Some (error_json t)) None
            [Access_find] db
      | None \<Rightarrow>
        (let found = filter (between startDate endDate) (accesses db) in
         case faults 1 of
           Some t \<Rightarrow>
             reply 500 False ''Error retrieving room usage statistics'' (Some (error_json t))
               None [Access_find, Room_find] db
         | None \<Rightarrow>
           (let daysInPeriod = dayOfMonth clk;
                roomStats = map (roomStat found) (rooms db);
                totalAccesses = foldl (\<lambda>sum stat. sum + stat_total_accesses stat) 0 roomStats;
                totalCancellations =
                  foldl (\<lambda>sum stat. sum + cancelled_accesses stat) 0 roomStats;
                totalHoursUsed =
                  foldl (\<lambda>sum stat. binary64 (sum + total_hours_used stat)) 0 roomStats
            in reply 200 True
                 ''Room usage statistics from the beginning of the month to today retrieved successfully''
                 None
                 (Some (Usage
                    \<lparr> period = toLocaleDateString rt startDate @ '' to ''
                                 @ toLocaleDateString rt endDate,
                      days_in_period = daysInPeriod,
                      usage_total_accesses = totalAccesses,
                      total_cancellations = totalCancellations,
                      usage_total_hours_used = parseFloat (toFixed2 totalHoursUsed),
                      room_stats = roomStats \<rparr>))
                 [Access_find, Room_find] db)))"

section \<open>Notions used to state the properties\<close>

text \<open>
  Modelled from the spec: the code that creates an event and changes it on exit or on
  cancellation is not part of the sources. By the data model an event is created on
  entry, changed once, on exit or on cancellation, and never changed afterwards; so an
  event that is cancelled has no exit.
\<close>

definition life_cycle :: "access \<Rightarrow> bool" where
  "life_cycle a = (state a = Cancelled \<longrightarrow> exit_datetime a = None)"

text \<open>
  The hours of one event as line 283 computes them, the sum of a list of hours as the
  loop adds them, from the left and starting at 0, and the events of a room that have
  an exit.
\<close>

definition duration_hours :: "access \<Rightarrow> rat" where
  "duration_hours a =
     (case exit_datetime a of
        None \<Rightarrow> 0
      | Some e \<Rightarrow> binary64 (binary64 (of_int e - of_int (entry_datetime a)) / 3600000))"

definition float_sum :: "rat list \<Rightarrow> rat" where
  "float_sum ds = foldl (\<lambda>total d. binary64 (total + d)) 0 ds"

definition completed_in :: "room \<Rightarrow> access list \<Rightarrow> access list" where
  "completed_in r xs =
     filter (\<lambda>a. room_id (room a) = room_id r \<and> exit_datetime a \<noteq> None) xs"

text \<open>
  A row of the grouped query is the row of a person when its three grouping columns are
  those of the person; \<open>user_of\<close> is the row that the query builds for a person.
\<close>

definition same_person :: "person \<Rightarrow> user_row \<Rightarrow> bool" where
  "same_person p u =
     (userId u = person_id p \<and> user_name u = name p \<and> user_surnames u = surnames p)"

definition user_of :: "access list \<Rightarrow> person \<Rightarrow> user_row" where
  "user_of joined p =
     \<lparr> userId = person_id p,
       accessCount = length (filter (\<lambda>a. person a = p) joined),
       user_name = name p,
       user_surnames = surnames p \<rparr>"

definition completed_count :: "int \<Rightarrow> int \<Rightarrow> access list \<Rightarrow> person \<Rightarrow> nat" where
  "completed_count start stop table p =
     length (filter (\<lambda>a. person a = p \<and> between start stop a \<and> exit_datetime a \<noteq> None) table)"

definition count_desc :: "user_row list \<Rightarrow> bool" where
  "count_desc us = sorted_wrt (\<lambda>u v. accessCount u \<ge> accessCount v) us"

text \<open>The report of a period, and the database with more snapshot rows.\<close>

definition report_of :: "database \<Rightarrow> int \<Rightarrow> int \<Rightarrow> detailed_report" where
  "report_of db start stop =
     detailedReport start stop (find_completed start stop (accesses db))
       (find_cancelled start stop (accesses db)) (activeUsersQuery start stop (accesses db))"

definition appended :: "database \<Rightarrow> administration list \<Rightarrow> database" where
  "appended db rows = db \<lparr> administrations := administrations db @ rows \<rparr>"



text \<open>A date parameter that passes the checks of lines 77 to 90.\<close>

definition valid_date :: "runtime \<Rightarrow> qparam option \<Rightarrow> bool" where
  "valid_date rt q = (is_string q \<and> \<not> falsy q \<and> newDate rt q \<noteq> None)"

definition newest_first :: "formatted_history list \<Rightarrow> bool" where
  "newest_first hs =
     sorted_wrt (\<lambda>x y. history_entry_datetime x \<ge> history_entry_datetime y) hs"

section \<open>Sample data\<close>

text \<open>
  January 2024 in UTC: the month starts at 1704067200000 and its last millisecond is
  1706745599999; on the 15th, 09:00 is 1705309200000, 10:00 is 1705312800000 and
  11:30 is 1705318200000.
\<close>

definition room_lab :: room where
  "room_lab = \<lparr> room_id = 7, room_name = ''Lab'' \<rparr>"

definition ana :: person where
  "ana = \<lparr> person_id = 1, name = ''Ana'', surnames = ''Ruiz'' \<rparr>"

definition completed_visit :: access where
  "completed_visit =
     \<lparr> access_id = 1, person = ana, room = room_lab, entry_datetime = 1705312800000,
       exit_datetime = Some 1705318200000, state = Completed \<rparr>"

definition cancelled_visit :: access where
  "cancelled_visit =
     \<lparr> access_id = 2, person = ana, room = room_lab, entry_datetime = 1705309200000,
       exit_datetime = None, state = Cancelled \<rparr>"

text \<open>A visit of 7.5 minutes.\<close>

definition short_visit :: access where
  "short_visit =
     \<lparr> access_id = 4, person = ana, room = room_lab, entry_datetime = 1705312800000,
       exit_datetime = Some 1705313250000, state = Completed \<rparr>"

text \<open>
  Visits from 10:00 to 11:30 on a day of January 2024, and a table where Ana has four
  completed visits and one cancelled one, and Ben has one completed visit.
\<close>

definition ben :: person where
  "ben = \<lparr> person_id = 2, name = ''Ben'', surnames = ''Soler'' \<rparr>"

definition visit_on :: "int \<Rightarrow> person \<Rightarrow> int \<Rightarrow> access" where
  "visit_on day p i =
     \<lparr> access_id = i, person = p, room = room_lab,
       entry_datetime = 1704067200000 + (day - 1) * 86400000 + 36000000,
       exit_datetime = Some (1704067200000 + (day - 1) * 86400000 + 41400000),
       state = Completed \<rparr>"

definition january_visits :: "access list" where
  "january_visits =
     [visit_on 2 ana 10, visit_on 3 ben 11, visit_on 4 ana 12, cancelled_visit,
      visit_on 8 ana 13, visit_on 9 ana 14]"

text \<open>
  The answers of a runtime in UTC on the strings that the requests below use: the two
  ISO dates parse to their midnight, \<open>not-a-date\<close> is an Invalid Date, and \<open>abc\<close> is
  not a number. The clock is the 31st of January 2024 at noon.
\<close>

definition sample_runtime :: runtime where
  "sample_runtime =
     \<lparr> Date_parse = (\<lambda>s. if s = ''2024-01-01'' then Some 1704067200000
                          else if s = ''2024-01-31'' then Some 1706659200000 else None),
       parseInt = (\<lambda>s. if s = ''7'' then Some 7 else if s = ''8'' then Some 8 else None),
       setHours_end = (\<lambda>t. t - t mod 86400000 + 86399999),
       toLocaleDateString =
         (\<lambda>t. if t < 1706659200000 then ''1/1/2024'' else ''1/31/2024'') \<rparr>"

definition sample_clock :: clock where
  "sample_clock =
     \<lparr> clock_now = 1706702400000, startOfMonth = 1704067200000,
       endOfToday = 1706745599999, dayOfMonth = 31 \<rparr>"

definition sample_db :: database where
  "sample_db =
     \<lparr> access_histories = [cancelled_visit, completed_visit],
       accesses = january_visits, rooms = [room_lab], administrations = [] \<rparr>"

definition january :: request where
  "january =
     \<lparr> start_date = Some (QString ''2024-01-01''),
       end_date = Some (QString ''2024-01-31''), room_id_param = ''7'' \<rparr>"

definition bad_date_request :: request where
  "bad_date_request =
     \<lparr> start_date = Some (QString ''not-a-date''),
       end_date = Some (QString ''2024-01-31''), room_id_param = ''7'' \<rparr>"

definition bad_room_and_date_request :: request where
  "bad_room_and_date_request =
     \<lparr> start_date = Some (QString ''not-a-date''),
       end_date = Some (QString ''2024-01-31''), room_id_param = ''abc'' \<rparr>"

definition unknown_room_request :: request where
  "unknown_room_request =
     \<lparr> start_date = Some (QString ''2024-01-01''),
       end_date = Some (QString ''2024-01-31''), room_id_param = ''8'' \<rparr>"

definition later_clock :: clock where
  "later_clock =
     \<lparr> clock_now = 1706706000000, startOfMonth = 1704067200000,
       endOfToday = 1706745599999, dayOfMonth = 31 \<rparr>"

definition no_faults :: "nat \<Rightarrow> thrown option" where
  "no_faults k = None"

definition save_throws :: "nat \<Rightarrow> thrown option" where
  "save_throws k = (if k = 3 then Some (Error_object ''disk full'' []) else None)"

definition first_call_throws :: "nat \<Rightarrow> thrown option" where
  "first_call_throws k = (if k = 0 then Some (Error_object ''connection lost'' []) else None)"

section \<open>Rounding\<close>

text \<open>
  The exponent that \<open>floor_log2\<close> finds is that of the leading bit, and the binary64
  value of a number is within half a unit in the last place of it.
\<close>

lemma floor_log2_bounds:
  assumes "0 < a"
  shows "2 powi (floor_log2 a) \<le> a \<and> a < 2 powi (floor_log2 a + 1)"
proof (cases "1 \<le> a")
  case True
  define n where "n = \<lfloor>a\<rfloor>"
  have n: "0 < n" using True by (simp add: n_def)
  have b: "1 \<le> bitlen n" using n by (simp add: bitlen_alt_def)
  from bitlen_bounds [OF n] have lo: "2 ^ nat (bitlen n - 1) \<le> n" and hi: "n < 2 ^ nat (bitlen n)"
    by auto
  have L: "floor_log2 a = bitlen n - 1"
    using True by (simp add: floor_log2_def n_def)
  have "(2::rat) powi (bitlen n - 1) = of_int (2 ^ nat (bitlen n - 1))"
    using b by (simp add: power_int_def)
  also have "\<dots> \<le> of_int n" using lo by (simp only: of_int_le_iff)
  also have "\<dots> \<le> a" by (simp add: n_def)
  finally have 1: "2 powi (floor_log2 a) \<le> a" by (simp add: L)
  have "a < of_int (n + 1)" unfolding n_def by linarith
  also have "\<dots> \<le> of_int (2 ^ nat (bitlen n))"
  proof -
    have "n + 1 \<le> 2 ^ nat (bitlen n)" using hi by simp
    then show ?thesis by (simp only: of_int_le_iff)
  qed
  also have "\<dots> = (2::rat) powi (bitlen n)" using b by (simp add: power_int_def)
  finally have 2: "a < 2 powi (floor_log2 a + 1)" by (simp add: L)
  show ?thesis using 1 2 by simp
next
  case False
  then have a1: "a < 1" by simp
  define m where "m = \<lceil>1 / a\<rceil> - 1"
  have y: "1 < 1 / a" using assms a1 by simp
  have m: "0 < m" using y unfolding m_def by linarith
  have b: "1 \<le> bitlen m" using m by (simp add: bitlen_alt_def)
  from bitlen_bounds [OF m] have lo: "2 ^ nat (bitlen m - 1) \<le> m" and hi: "m < 2 ^ nat (bitlen m)"
    by auto
  have L: "floor_log2 a = - bitlen m"
    using False by (simp add: floor_log2_def m_def)
  have "1 / a \<le> of_int (m + 1)" unfolding m_def by linarith
  also have "\<dots> \<le> of_int (2 ^ nat (bitlen m))"
  proof -
    have "m + 1 \<le> 2 ^ nat (bitlen m)" using hi by simp
    then show ?thesis by (simp only: of_int_le_iff)
  qed
  finally have "1 / a \<le> 2 ^ nat (bitlen m)" by simp
  then have "1 / 2 ^ nat (bitlen m) \<le> a"
    using assms by (simp add: field_simps)
  moreover have "(2::rat) powi (- bitlen m) = 1 / 2 ^ nat (bitlen m)"
    using b by (simp add: power_int_def field_simps)
  ultimately have 1: "2 powi (floor_log2 a) \<le> a" by (simp add: L)
  have "(2::rat) ^ nat (bitlen m - 1) = of_int (2 ^ nat (bitlen m - 1))"
    by simp
  also have "\<dots> \<le> of_int m"
    using lo by (simp only: of_int_le_iff)
  also have "\<dots> < 1 / a"
    unfolding m_def by linarith
  finally have "(2::rat) ^ nat (bitlen m - 1) < 1 / a" .
  then have "a < 1 / 2 ^ nat (bitlen m - 1)"
    using assms by (simp add: field_simps)
  moreover have "(2::rat) powi (- bitlen m + 1) = 1 / 2 ^ nat (bitlen m - 1)"
    using b by (simp add: power_int_def field_simps nat_diff_distrib)
  ultimately have 2: "a < 2 powi (floor_log2 a + 1)" by (simp add: L)
  show ?thesis using 1 2 by simp
qed

lemma round_half_even_close: "\<bar>of_int (round_half_even m) - m\<bar> \<le> 1 / 2"
proof -
  have "of_int \<lfloor>m\<rfloor> \<le> m" "m < of_int \<lfloor>m\<rfloor> + 1"
    by linarith+
  then show ?thesis
    by (auto simp: round_half_even_def Let_def abs_le_iff)
qed

lemma binary64_close: "\<bar>binary64 x - x\<bar> \<le> \<bar>x\<bar> / 2 ^ 53"
proof (cases "x = 0")
  case True
  then show ?thesis by (simp add: binary64_def)
next
  case False
  define a where "a = \<bar>x\<bar>"
  define e where "e = floor_log2 a - 52"
  define k where "k = round_half_even (a / 2 powi e)"
  have a: "0 < a" using False by (simp add: a_def)
  have p: "(0::rat) < 2 powi e" by simp
  have b: "binary64 x = sgn x * of_int k * 2 powi e"
    using False by (simp add: binary64_def Let_def a_def e_def k_def)
  have x: "x = sgn x * a" by (simp add: a_def mult_sgn_abs)
  have "binary64 x - x = sgn x * ((of_int k - a / 2 powi e) * 2 powi e)"
    using p by (subst b, subst (2) x) (simp add: field_simps)
  then have "\<bar>binary64 x - x\<bar> = \<bar>of_int k - a / 2 powi e\<bar> * 2 powi e"
    using False p by (simp add: abs_mult abs_sgn_eq)
  also have "\<dots> \<le> 1 / 2 * 2 powi e"
    using round_half_even_close [of "a / 2 powi e"] p
    by (intro mult_right_mono) (simp_all add: k_def)
  also have "\<dots> = 2 powi (floor_log2 a) / 2 ^ 53"
    by (simp add: e_def power_int_diff)
  also have "\<dots> \<le> a / 2 ^ 53"
    using floor_log2_bounds [OF a] by (simp add: divide_right_mono)
  finally show ?thesis by (simp add: a_def)
qed

section \<open>Summation\<close>

lemmas sample_events = room_lab_def ana_def completed_visit_def cancelled_visit_def
  short_visit_def

lemmas samples = sample_events ben_def visit_on_def january_visits_def sample_runtime_def
  sample_clock_def later_clock_def sample_db_def january_def no_faults_def
  first_call_throws_def save_throws_def

lemmas requests = bad_date_request_def bad_room_and_date_request_def unknown_room_request_def




text \<open>
  The rounding at work: a third added three times is 1, a tenth and two tenths do not add
  up to three tenths, and the first integer that binary64 does not hold goes to its
  even neighbour. A visit of 3618000 milliseconds is 1.005 hours in exact arithmetic
  and a little less in binary64, so it is reported as 1 and not as 1.01.
\<close>

lemma binary64_examples:
  "binary64 (binary64 (binary64 (1 / 3) + binary64 (1 / 3)) + binary64 (1 / 3)) = 1"
  "binary64 (binary64 (1 / 10) + binary64 (2 / 10)) \<noteq> binary64 (3 / 10)"
  "binary64 9007199254740993 = 9007199254740992"
  "binary64 (3618000 / 3600000) < 201 / 200"
  "parseFloat (toFixed2 (binary64 (3618000 / 3600000))) = 1"
  by code_simp+

text \<open>
  On events that all have an exit, both accumulators of the loop are the sum, added
  from the left, of the hours of the events.
\<close>

lemma sumDurations_foldl:
  assumes "\<forall>a\<in>set xs. exit_datetime a \<noteq> None"
  shows "sumDurations xs (h, d) =
     (foldl (\<lambda>total d. binary64 (total + d)) h (map duration_hours xs),
      foldl (\<lambda>total d. binary64 (total + d)) d (map duration_hours xs))"
  using assms
proof (induction xs arbitrary: h d)
  case Nil
  then show ?case by simp
next
  case (Cons a xs)
  then obtain e where e: "exit_datetime a = Some e"
    by auto
  with Cons show ?case
    by (simp add: duration_hours_def Let_def)
qed

lemma sumDurations_completed:
  "sumDurations (completed_in r xs) (0, 0) =
     (float_sum (map duration_hours (completed_in r xs)),
      float_sum (map duration_hours (completed_in r xs)))"
  unfolding float_sum_def
  by (rule sumDurations_foldl) (simp add: completed_in_def)

lemma roomStat_completed:
  "filter (\<lambda>a. exit_datetime a \<noteq> None) (filter (\<lambda>a. room_id (room a) = room_id r) xs)
     = completed_in r xs"
  by (simp add: completed_in_def conj_commute)

lemma completed_accesses_eq:
  "completed_accesses (roomStat xs r) = length (completed_in r xs)"
  unfolding roomStat_def Let_def roomStat_completed by simp

lemma total_hours_used_eq:
  "total_hours_used (roomStat xs r)
     = parseFloat (toFixed2 (float_sum (map duration_hours (completed_in r xs))))"
  unfolding roomStat_def Let_def roomStat_completed sumDurations_completed by simp

lemma average_duration_eq:
  "average_duration (roomStat xs r) =
     parseFloat (toFixed2
       (if length (completed_in r xs) > 0
        then binary64 (float_sum (map duration_hours (completed_in r xs))
                        / of_nat (length (completed_in r xs)))
        else 0))"
  unfolding roomStat_def Let_def roomStat_completed sumDurations_completed by simp

text \<open>Under the life cycle the events with an exit are not cancelled.\<close>

lemma completed_in_not_cancelled:
  assumes "\<forall>a\<in>set xs. life_cycle a"
  shows "completed_in r xs
     = filter (\<lambda>a. room_id (room a) = room_id r \<and> state a \<noteq> Cancelled
                   \<and> exit_datetime a \<noteq> None) xs"
  unfolding completed_in_def using assms
  by (intro filter_cong) (auto simp: life_cycle_def)

lemma completed_in_without_cancelled:
  assumes "\<forall>a\<in>set xs. life_cycle a"
  shows "completed_in r (filter (\<lambda>a. state a \<noteq> Cancelled) xs) = completed_in r xs"
  unfolding completed_in_def filter_filter using assms
  by (intro filter_cong) (auto simp: life_cycle_def)

lemma two_filters_le:
  "\<forall>x\<in>set xs. \<not> (P x \<and> Q x) \<Longrightarrow> length (filter P xs) + length (filter Q xs) \<le> length xs"
  by (induction xs) auto

lemma two_filters_within:
  assumes "\<forall>x\<in>set xs. R x \<longrightarrow> \<not> (P x \<and> Q x)"
  shows "length (filter (\<lambda>x. R x \<and> P x) xs) + length (filter (\<lambda>x. R x \<and> Q x) xs)
           \<le> length (filter R xs)"
proof -
  have "length (filter P (filter R xs)) + length (filter Q (filter R xs))
          \<le> length (filter R xs)"
    using assms by (intro two_filters_le) auto
  then show ?thesis
    by (simp add: conj_commute)
qed

section \<open>The grouped query and its cohorts\<close>

lemma count_in_remdups:
  "length (filter (\<lambda>q. q = p) (remdups xs)) = (if p \<in> set xs then 1 else 0)"
  by (induction xs) auto

lemma sorted_desc_filter:
  "sorted (map (\<lambda>u. - int (accessCount u)) us) \<Longrightarrow> count_desc (filter P us)"
  unfolding count_desc_def
  by (induction us) (auto simp: sorted_wrt_append)

lemma activeUsers_sorted:
  "sorted (map (\<lambda>u. - int (accessCount u)) (activeUsersQuery start stop table))"
  by (simp add: activeUsersQuery_def Let_def)

lemma same_person_user_of: "same_person p (user_of joined q) = (q = p)"
  by (cases p, cases q) (auto simp: same_person_def user_of_def)

lemma activeUsersQuery_alt:
  "activeUsersQuery start stop table =
     sort_key (\<lambda>u. - int (accessCount u))
       (map (user_of (find_completed start stop table))
          (remdups (map person (find_completed start stop table))))"
  unfolding activeUsersQuery_def Let_def find_completed_def user_of_def [abs_def]
  by (rule refl)

lemma set_activeUsersQuery:
  "set (activeUsersQuery start stop table) =
     user_of (find_completed start stop table) ` person ` set (find_completed start stop table)"
  by (simp add: activeUsersQuery_alt)

text \<open>Each group of the query is one row, whatever the order of the rows.\<close>

lemma appears_once:
  "length (filter (same_person p) (activeUsersQuery start stop table))
     = (if p \<in> person ` set (find_completed start stop table) then 1 else 0)"
proof -
  have "length (filter (same_person p) (activeUsersQuery start stop table))
      = length (filter (\<lambda>q. q = p) (remdups (map person (find_completed start stop table))))"
    by (simp add: activeUsersQuery_alt filter_sort filter_map o_def same_person_user_of)
  then show ?thesis
    by (simp add: count_in_remdups)
qed

lemma count_of_row:
  assumes "u \<in> set (activeUsersQuery start stop table)" and "same_person p u"
  shows "accessCount u = completed_count start stop table p"
proof -
  from assms(1) obtain q where u: "u = user_of (find_completed start stop table) q"
    by (auto simp: set_activeUsersQuery)
  with assms(2) have "q = p"
    by (simp add: same_person_user_of)
  with u show ?thesis
    by (simp add: user_of_def completed_count_def find_completed_def conj_commute
        conj_left_commute)
qed

lemma cohort_rows:
  assumes "p \<in> person ` set (find_completed start stop table)"
  shows "length (filter (same_person p)
            (filter (\<lambda>u. Q (accessCount u)) (activeUsersQuery start stop table)))
         = (if Q (completed_count start stop table p) then 1 else 0)"
proof -
  let ?us = "activeUsersQuery start stop table"
  have "filter (same_person p) (filter (\<lambda>u. Q (accessCount u)) ?us)
      = filter (\<lambda>u. same_person p u \<and> Q (completed_count start stop table p)) ?us"
    unfolding filter_filter
    by (rule filter_cong) (auto simp: count_of_row)
  also have "length \<dots> = (if Q (completed_count start stop table p) then 1 else 0)"
    using assms by (simp add: appears_once)
  finally show ?thesis .
qed

lemma userId_is_person:
  assumes "\<forall>b\<in>set (find_completed start stop table).
             person_id (person b) = person_id p \<longrightarrow> person b = p"
    and "u \<in> set (activeUsersQuery start stop table)"
  shows "(userId u = person_id p) = same_person p u"
proof -
  from assms(2) obtain q where q: "q \<in> person ` set (find_completed start stop table)"
      and u: "u = user_of (find_completed start stop table) q"
    by (auto simp: set_activeUsersQuery)
  have "userId u = person_id p \<Longrightarrow> q = p"
    using assms(1) q u by (auto simp: user_of_def)
  then show ?thesis
    using u by (auto simp: same_person_user_of) (simp add: user_of_def)
qed

section \<open>The report request\<close>



text \<open>What the \<open>catch\<close> of the report handlers sends when the first query throws.\<close>

lemma report_request_first_fault:
  "faults 0 = Some t \<Longrightarrow>
   response (report_request faults db start stop date saved_message failed_message)
     = \<lparr> status = 500, success = False, message = failed_message,
         error = Some (error_json t), data = None \<rparr>"
  by (simp add: report_request_def reply_def)

lemma report_of_appended [simp]:
  "report_of (appended db rows) start stop = report_of db start stop"
  by (simp add: report_of_def appended_def)

lemma appended_appended [simp]: "appended (appended db xs) ys = appended db (xs @ ys)"
  by (simp add: appended_def)

section \<open>Validation of the date parameters\<close>

lemma getAccessHistories_rejects:
  assumes "falsy (start_date req) \<or> falsy (end_date req)
      \<or> newDate rt (start_date req) = None \<or> newDate rt (end_date req) = None"
  shows "status (response (getAccessHistories rt faults db req)) = 400
     \<and> \<not> success (response (getAccessHistories rt faults db req))
     \<and> calls (getAccessHistories rt faults db req) = []
     \<and> db_after (getAccessHistories rt faults db req) = db"
  using assms by (auto simp: getAccessHistories_def reply_def split: option.splits)

lemma getRoomAccessHistories_rejects:
  assumes "falsy (start_date req) \<or> falsy (end_date req)
      \<or> newDate rt (start_date req) = None \<or> newDate rt (end_date req) = None"
  shows "status (response (getRoomAccessHistories rt faults db req)) = 400
     \<and> \<not> success (response (getRoomAccessHistories rt faults db req))
     \<and> calls (getRoomAccessHistories rt faults db req) = []
     \<and> db_after (getRoomAccessHistories rt faults db req) = db"
  using assms by (auto simp: getRoomAccessHistories_def reply_def split: option.splits)

lemma getDateReport_rejects:
  assumes "falsy (start_date req) \<or> falsy (end_date req)
      \<or> newDate rt (start_date req) = None \<or> newDate rt (end_date req) = None"
  shows "status (response (getDateReport rt faults db req)) = 400
     \<and> \<not> success (response (getDateReport rt faults db req))
     \<and> calls (getDateReport rt faults db req) = []
     \<and> db_after (getDateReport rt faults db req) = db"
  using assms by (auto simp: getDateReport_def reply_def split: option.splits)

lemma invalid_format_message:
  assumes "newDate rt (start_date req) = None \<or> newDate rt (end_date req) = None"
    and "is_string (start_date req)" "is_string (end_date req)"
    and "\<not> falsy (start_date req)" "\<not> falsy (end_date req)"
  shows "message (response (getAccessHistories rt faults db req))
           = ''Invalid date format. Use YYYY-MM-DD''"
    and "message (response (getDateReport rt faults db req))
           = ''Invalid date format. Use YYYY-MM-DD''"
    and "parseInt rt (room_id_param req) \<noteq> None \<Longrightarrow>
         message (response (getRoomAccessHistories rt faults db req))
           = ''Invalid date format. Use YYYY-MM-DD''"
  using assms
  by (auto simp: getAccessHistories_def getDateReport_def getRoomAccessHistories_def reply_def
      split: option.splits)

text \<open>A room id that is not a number is answered before the dates are looked at.\<close>

lemma invalid_room_id_rejected:
  assumes "parseInt rt (room_id_param req) = None"
  shows "response (getRoomAccessHistories rt faults db req)
       = \<lparr> status = 400, success = False, message = ''Invalid room ID'', error = None,
           data = None \<rparr>
     \<and> calls (getRoomAccessHistories rt faults db req) = []
     \<and> db_after (getRoomAccessHistories rt faults db req) = db"
  using assms by (simp add: getRoomAccessHistories_def reply_def)

section \<open>Store calls that throw\<close>

text \<open>
  An answer 500 of the access history controller carries the message of what was
  thrown; an answer 500 of the report handlers carries the thrown value as \<open>res.json\<close>
  writes it.
\<close>

lemma getAccessHistories_failure:
  assumes "status (response (getAccessHistories rt faults db req)) = 500"
  shows "\<exists>t. faults 0 = Some t
     \<and> error (response (getAccessHistories rt faults db req)) = Some (error_message t)
     \<and> \<not> success (response (getAccessHistories rt faults db req))"
  using assms
  by (auto simp: getAccessHistories_def reply_def Let_def split: option.splits if_splits)

lemma getRoomAccessHistories_failure:
  assumes "status (response (getRoomAccessHistories rt faults db req)) = 500"
  shows "\<exists>k t. faults k = Some t
     \<and> error (response (getRoomAccessHistories rt faults db req)) = Some (error_message t)
     \<and> \<not> success (response (getRoomAccessHistories rt faults db req))"
  using assms
  by (auto simp: getRoomAccessHistories_def reply_def Let_def split: option.splits if_splits)

lemma report_request_failure:
  assumes "status (response (report_request faults db start stop date saved_message
      failed_message)) = 500"
  shows "\<exists>k t. faults k = Some t
     \<and> error (response (report_request faults db start stop date saved_message failed_message))
         = Some (error_json t)"
  using assms
  by (auto simp: report_request_def reply_def Let_def split: option.splits)

section \<open>Order of the histories\<close>

lemma newest_first_format: "newest_first (map format_history (order_desc xs))"
proof -
  have "sorted (map (\<lambda>a. - entry_datetime a) (order_desc xs))"
    by (simp add: order_desc_def)
  then have "sorted_wrt (\<lambda>a b. entry_datetime a \<ge> entry_datetime b) (order_desc xs)"
    by (simp add: sorted_map)
  then show ?thesis
    by (simp add: newest_first_def sorted_wrt_map format_history_def)
qed

section \<open>The aggregations\<close>

text \<open>
  Claim C1: for every list of events that follow the life cycle of the data model, a
  cancelled event contributes neither to the completed count of a room nor to its
  hours. The completed count of \<open>getRoomUsageStats\<close> is the number of the events of the
  room that are not cancelled and have an exit, the reported hours are the sum of the
  hours of exactly these events, printed with two decimals, and the completed count,
  the hours and the average of a room are the same when all cancelled events are
  taken out of the list.
\<close>

theorem cancelled_events_do_not_contribute:
  assumes "\<forall>a\<in>set xs. life_cycle a"
  shows "completed_accesses (roomStat xs r)
       = length (filter (\<lambda>a. room_id (room a) = room_id r \<and> state a \<noteq> Cancelled
                              \<and> exit_datetime a \<noteq> None) xs)
   \<and> total_hours_used (roomStat xs r)
       = parseFloat (toFixed2 (float_sum (map duration_hours
           (filter (\<lambda>a. room_id (room a) = room_id r \<and> state a \<noteq> Cancelled
                         \<and> exit_datetime a \<noteq> None) xs))))
   \<and> completed_accesses (roomStat (filter (\<lambda>a. state a \<noteq> Cancelled) xs) r)
       = completed_accesses (roomStat xs r)
   \<and> total_hours_used (roomStat (filter (\<lambda>a. state a \<noteq> Cancelled) xs) r)
       = total_hours_used (roomStat xs r)
   \<and> average_duration (roomStat (filter (\<lambda>a. state a \<noteq> Cancelled) xs) r)
       = average_duration (roomStat xs r)"
proof -
  note range = completed_in_not_cancelled [OF assms, of r, symmetric]
  note drop = completed_in_without_cancelled [OF assms, of r]
  have "completed_accesses (roomStat xs r)
       = length (filter (\<lambda>a. room_id (room a) = room_id r \<and> state a \<noteq> Cancelled
                              \<and> exit_datetime a \<noteq> None) xs)"
    by (simp only: completed_accesses_eq range)
  moreover have "total_hours_used (roomStat xs r)
       = parseFloat (toFixed2 (float_sum (map duration_hours
           (filter (\<lambda>a. room_id (room a) = room_id r \<and> state a \<noteq> Cancelled
                         \<and> exit_datetime a \<noteq> None) xs))))"
    by (simp only: total_hours_used_eq range)
  moreover have "completed_accesses (roomStat (filter (\<lambda>a. state a \<noteq> Cancelled) xs) r)
       = completed_accesses (roomStat xs r)"
    by (simp only: completed_accesses_eq drop)
  moreover have "total_hours_used (roomStat (filter (\<lambda>a. state a \<noteq> Cancelled) xs) r)
       = total_hours_used (roomStat xs r)"
    by (simp only: total_hours_used_eq drop)
  moreover have "average_duration (roomStat (filter (\<lambda>a. state a \<noteq> Cancelled) xs) r)
       = average_duration (roomStat xs r)"
    by (simp only: average_duration_eq drop)
  ultimately show ?thesis
    by blast
qed

theorem cancelled_events_do_not_contribute_witness:
  "exit_datetime cancelled_visit = None \<and> state completed_visit = Completed
   \<and> completed_accesses (roomStat [completed_visit, cancelled_visit] room_lab) = 1
   \<and> total_hours_used (roomStat [completed_visit, cancelled_visit] room_lab)
       = total_hours_used (roomStat [completed_visit] room_lab)
   \<and> total_hours_used (roomStat [completed_visit] room_lab) = 3 / 2"
proof -
  have h: "\<forall>a\<in>set [completed_visit, cancelled_visit]. life_cycle a"
    by (simp add: life_cycle_def sample_events)
  have "total_hours_used (roomStat [completed_visit] room_lab) = 3 / 2"
    by code_simp
  then show ?thesis
    using cancelled_events_do_not_contribute [OF h, of room_lab]
    by (simp add: sample_events)
qed

text \<open>
  Claim C2: for every table of events and every period, a person with at least one event
  of the period that has an exit is one row of the grouped query, and that row is in
  exactly one of the two cohorts of lines 191 and 192: in the frequent one when the
  person has more than three such events, in the infrequent one otherwise; each cohort
  is ordered by the count, largest first. The person is the group of the query
  (\<open>person_id\<close>, \<open>name\<close>, \<open>surnames\<close>); when \<open>person_id\<close> determines the person, as
  a primary key does, the \<open>userId\<close> alone occurs once in the two cohorts.
\<close>

theorem frequency_cohorts_partition:
  assumes "a \<in> set table" and "between start stop a" and "exit_datetime a \<noteq> None"
  shows "length (filter (same_person (person a))
            (frequentUsers (activeUsersQuery start stop table)
             @ infrequentUsers (activeUsersQuery start stop table))) = 1
     \<and> length (filter (same_person (person a))
            (frequentUsers (activeUsersQuery start stop table)))
         = (if completed_count start stop table (person a) > 3 then 1 else 0)
     \<and> length (filter (same_person (person a))
            (infrequentUsers (activeUsersQuery start stop table)))
         = (if completed_count start stop table (person a) \<le> 3 then 1 else 0)
     \<and> count_desc (frequentUsers (activeUsersQuery start stop table))
     \<and> count_desc (infrequentUsers (activeUsersQuery start stop table))
     \<and> ((\<forall>b\<in>set (find_completed start stop table).
            person_id (person b) = person_id (person a) \<longrightarrow> person b = person a)
          \<longrightarrow> length (filter (\<lambda>u. userId u = person_id (person a))
                 (frequentUsers (activeUsersQuery start stop table)
                  @ infrequentUsers (activeUsersQuery start stop table))) = 1)"
proof -
  let ?us = "activeUsersQuery start stop table"
  let ?p = "person a"
  have p: "?p \<in> person ` set (find_completed start stop table)"
    using assms by (auto simp: find_completed_def)
  have freq: "length (filter (same_person ?p) (frequentUsers ?us))
         = (if completed_count start stop table ?p > 3 then 1 else 0)"
    unfolding frequentUsers_def using cohort_rows [OF p, of "\<lambda>n. n > 3"] by simp
  have infreq: "length (filter (same_person ?p) (infrequentUsers ?us))
         = (if completed_count start stop table ?p \<le> 3 then 1 else 0)"
    unfolding infrequentUsers_def using cohort_rows [OF p, of "\<lambda>n. n \<le> 3"] by simp
  have once: "length (filter (same_person ?p) (frequentUsers ?us @ infrequentUsers ?us)) = 1"
    using freq infreq by simp
  have sorted: "count_desc (frequentUsers ?us)" "count_desc (infrequentUsers ?us)"
    unfolding frequentUsers_def infrequentUsers_def
    by (rule sorted_desc_filter, rule activeUsers_sorted)+
  have key: "length (filter (\<lambda>u. userId u = person_id ?p)
                 (frequentUsers ?us @ infrequentUsers ?us)) = 1"
    if "\<forall>b\<in>set (find_completed start stop table).
            person_id (person b) = person_id ?p \<longrightarrow> person b = ?p"
  proof -
    have "filter (\<lambda>u. userId u = person_id ?p) (frequentUsers ?us @ infrequentUsers ?us)
        = filter (same_person ?p) (frequentUsers ?us @ infrequentUsers ?us)"
      by (rule filter_cong)
         (auto simp: frequentUsers_def infrequentUsers_def userId_is_person [OF that])
    then show ?thesis
      using once by simp
  qed
  show ?thesis
    using freq infreq once sorted key by blast
qed

theorem frequency_cohorts_partition_witness:
  "frequentUsers (activeUsersQuery 1704067200000 1706745599999 january_visits)
     = [\<lparr> userId = 1, accessCount = 4, user_name = ''Ana'', user_surnames = ''Ruiz'' \<rparr>]
   \<and> infrequentUsers (activeUsersQuery 1704067200000 1706745599999 january_visits)
     = [\<lparr> userId = 2, accessCount = 1, user_name = ''Ben'', user_surnames = ''Soler'' \<rparr>]"
  using frequency_cohorts_partition
    [of "visit_on 2 ana 10" january_visits 1704067200000 1706745599999]
  by (simp add: frequentUsers_def infrequentUsers_def activeUsersQuery_def between_def Let_def
      samples)

text \<open>
  Claim C3: for every table of events that follow the life cycle of the data model and
  for every period, the events of the period with an exit and the cancelled events of
  the period are together at most the events of the period: the two queries of the
  report handlers (lines 154 to 173 and 355 to 374) against all events of the period,
  and the two filters of lines 273 and 274 against the events of the room.
\<close>

theorem completed_plus_cancelled_le_total:
  assumes "\<forall>a\<in>set table. life_cycle a"
  shows "length (find_completed start stop table) + length (find_cancelled start stop table)
           \<le> length (filter (between start stop) table)
         \<and> completed_accesses (roomStat table r) + cancelled_accesses (roomStat table r)
           \<le> length (filter (\<lambda>a. room_id (room a) = room_id r) table)"
proof
  have disjoint: "\<forall>a\<in>set table. state a = Cancelled \<longrightarrow> exit_datetime a = None"
    using assms by (simp add: life_cycle_def)
  show "length (find_completed start stop table) + length (find_cancelled start stop table)
           \<le> length (filter (between start stop) table)"
    unfolding find_completed_def find_cancelled_def
    using disjoint by (intro two_filters_within) auto
  have "length (filter (\<lambda>a. room_id (room a) = room_id r \<and> exit_datetime a \<noteq> None) table)
        + length (filter (\<lambda>a. room_id (room a) = room_id r \<and> state a = Cancelled) table)
        \<le> length (filter (\<lambda>a. room_id (room a) = room_id r) table)"
    using disjoint by (intro two_filters_within) auto
  then show "completed_accesses (roomStat table r) + cancelled_accesses (roomStat table r)
           \<le> length (filter (\<lambda>a. room_id (room a) = room_id r) table)"
    by (simp add: roomStat_def Let_def conj_commute)
qed

theorem completed_plus_cancelled_le_total_witness:
  "state completed_visit = Completed \<and> exit_datetime cancelled_visit = None
   \<and> length (find_completed 1704067200000 1706745599999 [completed_visit, cancelled_visit])
     + length (find_cancelled 1704067200000 1706745599999 [completed_visit, cancelled_visit])
     \<le> length (filter (between 1704067200000 1706745599999) [completed_visit, cancelled_visit])
   \<and> length (find_completed 1704067200000 1706745599999 [completed_visit, cancelled_visit]) = 1
   \<and> length (find_cancelled 1704067200000 1706745599999 [completed_visit, cancelled_visit]) = 1"
proof -
  have h: "\<forall>a\<in>set [completed_visit, cancelled_visit]. life_cycle a"
    by (simp add: life_cycle_def sample_events)
  show ?thesis
    using h completed_plus_cancelled_le_total [OF h, of 1704067200000 1706745599999 room_lab]
    by (simp add: find_completed_def find_cancelled_def between_def sample_events)
qed




text \<open>
  Claim C5: for the list of one completed event from 10:00 to 11:30 and one cancelled
  event of 09:00 without an exit, both in the same room, the statistics of the room
  have one completed access, one cancelled access, 1.5 hours in total and an average
  of 1.5 hours.
\<close>

theorem example_of_two_events:
  "completed_accesses (roomStat [completed_visit, cancelled_visit] room_lab) = 1
   \<and> cancelled_accesses (roomStat [completed_visit, cancelled_visit] room_lab) = 1
   \<and> total_hours_used (roomStat [completed_visit, cancelled_visit] room_lab) = 3 / 2
   \<and> average_duration (roomStat [completed_visit, cancelled_visit] room_lab) = 3 / 2"
proof -
  have "roomStat [completed_visit, cancelled_visit] room_lab
      = \<lparr> stat_room_id = 7, stat_room_name = ''Lab'', stat_total_accesses = 1,
          completed_accesses = 1, cancelled_accesses = 1, total_hours_used = 3 / 2,
          average_duration = 3 / 2 \<rparr>"
    by code_simp
  then show ?thesis
    by simp
qed

section \<open>Snapshots, validation and failures\<close>



text \<open>
  Claim C7 says that an unparsable date string is always answered with the message
  about the date format. \<open>getRoomAccessHistories\<close> checks the room id first (lines 69
  to 74): with a room id that is not a number, the answer to an unparsable date is 400
  with the message about the room id.
\<close>

theorem invalid_room_id_masks_invalid_date:
  "status (response (getRoomAccessHistories sample_runtime no_faults sample_db
       bad_room_and_date_request)) = 400
   \<and> message (response (getRoomAccessHistories sample_runtime no_faults sample_db
       bad_room_and_date_request)) = ''Invalid room ID''
   \<and> message (response (getRoomAccessHistories sample_runtime no_faults sample_db
       bad_room_and_date_request)) \<noteq> ''Invalid date format. Use YYYY-MM-DD''"
  by (simp add: getRoomAccessHistories_def reply_def sample_runtime_def requests)

text \<open>
  Claim C7, amended: when \<open>start_date\<close> or \<open>end_date\<close> is absent, empty or does not
  parse as a date, each of \<open>getAccessHistories\<close>, \<open>getRoomAccessHistories\<close> and
  \<open>getDateReport\<close> answers 400 without success and makes no store call. When both
  parameters are strings that are not empty, the message is exactly the one about the
  date format, for \<open>getRoomAccessHistories\<close> provided that the room id is a number.
\<close>

theorem bad_dates_are_rejected:
  assumes "falsy (start_date req) \<or> falsy (end_date req)
      \<or> newDate rt (start_date req) = None \<or> newDate rt (end_date req) = None"
  shows "status (response (getAccessHistories rt faults db req)) = 400
     \<and> \<not> success (response (getAccessHistories rt faults db req))
     \<and> calls (getAccessHistories rt faults db req) = []
     \<and> status (response (getRoomAccessHistories rt faults db req)) = 400
     \<and> \<not> success (response (getRoomAccessHistories rt faults db req))
     \<and> calls (getRoomAccessHistories rt faults db req) = []
     \<and> status (response (getDateReport rt faults db req)) = 400
     \<and> \<not> success (response (getDateReport rt faults db req))
     \<and> calls (getDateReport rt faults db req) = []
     \<and> (is_string (start_date req) \<and> is_string (end_date req)
          \<and> \<not> falsy (start_date req) \<and> \<not> falsy (end_date req)
        \<longrightarrow> message (response (getAccessHistories rt faults db req))
              = ''Invalid date format. Use YYYY-MM-DD''
          \<and> message (response (getDateReport rt faults db req))
              = ''Invalid date format. Use YYYY-MM-DD''
          \<and> (parseInt rt (room_id_param req) \<noteq> None
              \<longrightarrow> message (response (getRoomAccessHistories rt faults db req))
                    = ''Invalid date format. Use YYYY-MM-DD''))"
proof -
  have "newDate rt (start_date req) = None \<or> newDate rt (end_date req) = None"
    if "\<not> falsy (start_date req)" "\<not> falsy (end_date req)"
    using assms that by simp
  then show ?thesis
    using getAccessHistories_rejects [OF assms, of faults db]
      getRoomAccessHistories_rejects [OF assms, of faults db]
      getDateReport_rejects [OF assms, of faults db]
      invalid_format_message [of rt req faults db]
    by simp
qed

theorem bad_dates_are_rejected_witness:
  "status (response (getAccessHistories sample_runtime no_faults sample_db bad_date_request))
     = 400
   \<and> message (response (getAccessHistories sample_runtime no_faults sample_db bad_date_request))
        = ''Invalid date format. Use YYYY-MM-DD''
   \<and> message (response
        (getRoomAccessHistories sample_runtime no_faults sample_db bad_date_request))
        = ''Invalid date format. Use YYYY-MM-DD''
   \<and> message (response (getDateReport sample_runtime no_faults sample_db bad_date_request))
        = ''Invalid date format. Use YYYY-MM-DD''"
  using bad_dates_are_rejected [of bad_date_request sample_runtime no_faults sample_db]
  by (simp add: falsy_def is_string_def newDate_def sample_runtime_def requests)

text \<open>
  Claim C8: when the room id of the request is a number that is the id of no stored
  room, both date parameters pass the checks and the room lookup returns, then
  \<open>getRoomAccessHistories\<close> answers 404 without success, with the message
  \<open>Room not found\<close>, and its only store call is the room lookup: the access histories
  are not queried.
\<close>

theorem unknown_room_is_not_found:
  assumes "parseInt rt (room_id_param req) = Some rid"
    and "rid \<notin> room_id ` set (rooms db)"
    and "valid_date rt (start_date req)" and "valid_date rt (end_date req)"
    and "faults 0 = None"
  shows "status (response (getRoomAccessHistories rt faults db req)) = 404
     \<and> \<not> success (response (getRoomAccessHistories rt faults db req))
     \<and> message (response (getRoomAccessHistories rt faults db req)) = ''Room not found''
     \<and> calls (getRoomAccessHistories rt faults db req) = [Room_findOne]
     \<and> AccessHistory_find \<notin> set (calls (getRoomAccessHistories rt faults db req))"
proof -
  have "find (\<lambda>r. room_id r = rid) (rooms db) = None"
    using assms(2) by (auto simp: find_None_iff)
  then show ?thesis
    using assms
    by (auto simp: getRoomAccessHistories_def reply_def valid_date_def Let_def
        split: option.splits)
qed

theorem unknown_room_is_not_found_witness:
  "status (response
      (getRoomAccessHistories sample_runtime no_faults sample_db unknown_room_request)) = 404
   \<and> message (response
      (getRoomAccessHistories sample_runtime no_faults sample_db unknown_room_request))
       = ''Room not found''
   \<and> calls (getRoomAccessHistories sample_runtime no_faults sample_db unknown_room_request)
       = [Room_findOne]"
  using unknown_room_is_not_found [of sample_runtime unknown_room_request 8 sample_db no_faults]
  by (simp add: valid_date_def falsy_def is_string_def newDate_def samples requests)

text \<open>
  The handlers of the access history controller send \<open>error.message\<close> (lines 58 and
  136): when the query of \<open>getAccessHistories\<close> throws an \<open>Error\<close>, the body has its
  message.
\<close>

lemma getAccessHistories_echoes_error_message:
  "response (getAccessHistories sample_runtime first_call_throws sample_db january)
     = \<lparr> status = 500, success = False,
         message = ''An error occurred while fetching access histories'',
         error = Some (Error_text ''connection lost''), data = None \<rparr>"
  by (simp add: getAccessHistories_def reply_def falsy_def is_string_def newDate_def
      first_call_throws_def sample_runtime_def january_def)

text \<open>
  Claim C9: every handler answers a store call that throws with 500, without success,
  and with the message of the error in the body. The three handlers of the
  administration controller send the thrown value itself (lines 244, 328 and 445):
  when their first query throws an \<open>Error\<close> with the message \<open>connection lost\<close>, they
  answer 500 without success, but the error of the body is an object without
  properties, and the message is not in it.
\<close>

theorem administration_handlers_drop_error_message:
  "response (generateDailyReport sample_clock first_call_throws sample_db)
     = \<lparr> status = 500, success = False, message = ''Error generating daily report'',
         error = Some (Error_properties []), data = None \<rparr>
   \<and> response (getDateReport sample_runtime first_call_throws sample_db january)
     = \<lparr> status = 500, success = False, message = ''Error generating custom report'',
         error = Some (Error_properties []), data = None \<rparr>
   \<and> response (getRoomUsageStats sample_clock sample_runtime first_call_throws sample_db)
     = \<lparr> status = 500, success = False, message = ''Error retrieving room usage statistics'',
         error = Some (Error_properties []), data = None \<rparr>"
  by (simp add: generateDailyReport_def getDateReport_def getRoomUsageStats_def
      report_request_def reply_def falsy_def newDate_def
      first_call_throws_def sample_runtime_def january_def)

text \<open>
  Claim C10: the histories in the data of \<open>getAccessHistories\<close> and of
  \<open>getRoomAccessHistories\<close> are ordered by their entry time, the most recent first.
\<close>

theorem histories_newest_first:
  "(data (response (getAccessHistories rt faults db req)) = Some (Histories hs)
      \<longrightarrow> newest_first hs)
   \<and> (data (response (getRoomAccessHistories rt faults db req))
         = Some (Room_histories rid rname hs)
      \<longrightarrow> newest_first hs)"
  by (auto simp: getAccessHistories_def getRoomAccessHistories_def reply_def Let_def
      newest_first_format split: option.splits if_splits)

theorem histories_newest_first_witness:
  "map history_id
     (case data (response (getAccessHistories sample_runtime no_faults sample_db january)) of
        Some (Histories hs) \<Rightarrow> hs | _ \<Rightarrow> []) = [1, 2]
   \<and> map history_entry_datetime
     (case data (response (getRoomAccessHistories sample_runtime no_faults sample_db january)) of
        Some (Room_histories rid rname hs) \<Rightarrow> hs | _ \<Rightarrow> []) = [1705312800000, 1705309200000]"
  using histories_newest_first [of sample_runtime no_faults sample_db january]
  by (simp add: getAccessHistories_def getRoomAccessHistories_def reply_def Let_def falsy_def
      is_string_def newDate_def order_desc_def between_def format_history_def samples)

end
